theory Spec2Isabelle
  imports Main "HOL-Library.Sublist"
begin

section \<open>Values shared by the request handlers\<close>

text \<open>
  A \<open>uuid.UUID\<close> is modelled by its canonical text, which is never empty;
  \<open>str_uuid\<close> is Python's \<open>str(...)\<close> on it and \<open>UUID\<close> its constructor.
\<close>

typedef uuid = "{s :: string. s \<noteq> []}"
  morphisms str_uuid UUID
  by (rule exI [of _ "''0''"]) simp

text \<open>
  \<open>fastapi.HTTPException(status_code, detail, headers)\<close>; no headers is the empty list.
\<close>

datatype http_exception =
  HTTPException (status_code: nat) (detail: string) (headers: "(string \<times> string) list")

text \<open>
  What leaves a request handler as an exception: an \<open>HTTPException\<close>, which the
  framework turns into the response of its status, or any other exception, named by
  its class, which no handler of the framework knows and which it answers with the
  status 500.
\<close>

datatype exn = HTTP http_exception | Unhandled string

text \<open>The pydantic model \<open>TokenData\<close> of auth/endpoints.py.\<close>

record token_data =
  td_id :: string
  td_username :: string
  td_is_admin :: bool

section \<open>The relational store\<close>

text \<open>
  The dictionary of a fleet's \<open>ships\<close> column, after \<open>json.loads\<close> where the
  driver hands it over as text: its items, ship-type label and count.
\<close>

type_synonym ships = "(string \<times> int) list"

text \<open>A row of \<open>SELECT id, user_id, ships FROM user_fleets\<close>.\<close>

record fleet_row =
  f_id :: uuid
  f_user_id :: uuid
  f_ships :: ships

text \<open>A row of \<open>SELECT id, username, email, password, is_admin FROM users\<close>.\<close>

record user_row =
  u_id :: uuid
  u_username :: string
  u_email :: string
  u_password :: string
  u_is_admin :: bool

text \<open>
  An open connection: the two tables it reads, and the driver's check of a text
  parameter of a query, which names the exception that \<open>cursor.execute\<close> raises
  for a text it cannot send (\<open>DataError\<close> for one that holds a NUL byte).
\<close>

record database =
  users :: "user_row list"
  user_fleets :: "fleet_row list"
  param_error :: "string \<Rightarrow> string option"

text \<open>
  The process environment (\<open>os.getenv\<close>) and the database driver:
  \<open>psycopg_connect\<close> returns a connection, or \<open>Inl msg\<close> for an exception whose
  text is \<open>msg\<close>.
\<close>

record env =
  getenv :: "string \<rightharpoonup> string"
  psycopg_connect :: "string \<Rightarrow> string + database"

text \<open>database/database.py, \<open>connect_to_db\<close>. \<open>not DATABASE_URL\<close> holds for a
  missing variable and for an empty one.\<close>

definition connect_to_db :: "env \<Rightarrow> http_exception + database" where
  "connect_to_db e =
     (case getenv e ''DATABASE_URL'' of
        None \<Rightarrow> Inl (HTTPException 500 ''Database URL is not set in environment variables'' [])
      | Some url \<Rightarrow>
          if url = [] then
            Inl (HTTPException 500 ''Database URL is not set in environment variables'' [])
          else
            (case psycopg_connect e url of
               Inl msg \<Rightarrow> Inl (HTTPException 500 (''Database connection error: '' @ msg) [])
             | Inr conn \<Rightarrow> Inr conn))"

text \<open>\<open>SELECT ... FROM user_fleets WHERE id = %s\<close> followed by \<open>fetchone()\<close>.\<close>

definition select_fleet :: "database \<Rightarrow> string \<Rightarrow> fleet_row option" where
  "select_fleet conn fid = find (\<lambda>f. str_uuid (f_id f) = fid) (user_fleets conn)"

text \<open>
  \<open>SELECT ... FROM users WHERE username = %s\<close> followed by \<open>fetchone()\<close>;
  \<open>Inl c\<close> when the driver raises the exception \<open>c\<close> for the parameter.
\<close>

definition select_user :: "database \<Rightarrow> string \<Rightarrow> string + user_row option" where
  "select_user conn name =
     (case param_error conn name of
        Some c \<Rightarrow> Inl c
      | None \<Rightarrow> Inr (find (\<lambda>u. u_username u = name) (users conn)))"

section \<open>Battle resolution (user_battles/endpoints.py)\<close>

record battle_result =
  battle_id :: uuid
  attacker_id :: uuid
  defender_id :: uuid
  attacker_fleet_id :: uuid
  defender_fleet_id :: uuid
  winner_id :: uuid
  loser_id :: uuid
  attacker_total_ships :: int
  defender_total_ships :: int
  report :: string

text \<open>\<open>sum(d.values())\<close> of a dictionary of integers.\<close>

definition sum_values :: "ships \<Rightarrow> int" where
  "sum_values d = sum_list (map snd d)"

text \<open>Python's \<open>str\<close> of an integer, as the f-string of the report formats the totals.\<close>

definition digit_char :: "nat \<Rightarrow> char" where
  "digit_char d = ''0123456789'' ! d"

function str_nat :: "nat \<Rightarrow> string" where
  "str_nat n = (if n < 10 then [digit_char n] else str_nat (n div 10) @ [digit_char (n mod 10)])"
  by pat_completeness auto
termination
  by (relation "measure (\<lambda>n. n)") auto

declare str_nat.simps [simp del]

definition str_int :: "int \<Rightarrow> string" where
  "str_int i = (if i < 0 then CHR ''-'' # str_nat (nat (- i)) else str_nat (nat i))"

definition newline :: string where
  "newline = [CHR 0x0A]"

text \<open>
  The body of the \<open>try\<close> block of \<open>start_battle\<close>. \<open>new_id\<close> is the value that
  \<open>uuid4()\<close> draws. \<open>current_user.id\<close> is a string already, so \<open>str\<close> leaves it as it is.
\<close>

definition start_battle_try ::
  "database \<Rightarrow> uuid \<Rightarrow> uuid \<Rightarrow> uuid \<Rightarrow> token_data \<Rightarrow> http_exception + battle_result" where
  "start_battle_try conn new_id att_fleet_id def_fleet_id current_user =
     (case select_fleet conn (str_uuid att_fleet_id) of
        None \<Rightarrow> Inl (HTTPException 404 ''Attacker fleet not found'' [])
      | Some attacker_fleet \<Rightarrow>
          if str_uuid (f_user_id attacker_fleet) \<noteq> td_id current_user then
            Inl (HTTPException 403 ''You do not own the attacker fleet'' [])
          else
            (case select_fleet conn (str_uuid def_fleet_id) of
               None \<Rightarrow> Inl (HTTPException 404 ''Defender fleet not found'' [])
             | Some defender_fleet \<Rightarrow>
                 if str_uuid (f_user_id defender_fleet) = td_id current_user then
                   Inl (HTTPException 400 ''Cannot attack your own fleet'' [])
                 else
                   (let attacker_total = sum_values (f_ships attacker_fleet);
                        defender_total = sum_values (f_ships defender_fleet);
                        (winner, loser, outcome) =
                          (if attacker_total > defender_total then
                             (f_user_id attacker_fleet, f_user_id defender_fleet,
                              ''Attacker wins'')
                           else if defender_total > attacker_total then
                             (f_user_id defender_fleet, f_user_id attacker_fleet,
                              ''Defender wins'')
                           else
                             (f_user_id defender_fleet, f_user_id attacker_fleet,
                              ''Tie - Defender wins by default''));
                        rep = ''Battle ID: '' @ str_uuid new_id @ newline @ outcome @ ''!''
                              @ newline @ ''Attacker ships: '' @ str_int attacker_total
                              @ newline @ ''Defender ships: '' @ str_int defender_total
                    in Inr \<lparr>battle_id = new_id,
                            attacker_id = f_user_id attacker_fleet,
                            defender_id = f_user_id defender_fleet,
                            attacker_fleet_id = att_fleet_id,
                            defender_fleet_id = def_fleet_id,
                            winner_id = winner,
                            loser_id = loser,
                            attacker_total_ships = attacker_total,
                            defender_total_ships = defender_total,
                            report = rep\<rparr>)))"

text \<open>
  \<open>start_battle\<close>: the connection is opened outside the \<open>try\<close>; whatever the block
  raises is caught by \<open>except Exception as e\<close> and raised again as a 500 whose detail
  holds \<open>str(e)\<close>. \<open>str_exc\<close> is the web framework's \<open>str\<close> of an \<open>HTTPException\<close>.
\<close>

definition start_battle ::
  "(http_exception \<Rightarrow> string) \<Rightarrow> env \<Rightarrow> uuid \<Rightarrow> uuid \<Rightarrow> uuid \<Rightarrow> token_data
     \<Rightarrow> http_exception + battle_result" where
  "start_battle str_exc e new_id att_fleet_id def_fleet_id current_user =
     (case connect_to_db e of
        Inl err \<Rightarrow> Inl err
      | Inr conn \<Rightarrow>
          (case start_battle_try conn new_id att_fleet_id def_fleet_id current_user of
             Inl err \<Rightarrow> Inl (HTTPException 500 (''Error during battle: '' @ str_exc err) [])
           | Inr r \<Rightarrow> Inr r))"


section \<open>Sessions (auth/endpoints.py)\<close>

text \<open>
  The values a decoded token can hold: null, a boolean, an integer, a float (mantissa
  and binary exponent), a string, an array or an object.
\<close>

datatype json =
  JNull | JBool bool | JInt int | JFloat int int | JStr string
  | JArray "json list" | JObject "(string \<times> json) list"

text \<open>The claim set of a token: a dictionary from claim names to values.\<close>

type_synonym payload = "string \<rightharpoonup> json"

text \<open>\<open>payload.get(key)\<close>: \<open>None\<close>, which is \<open>JNull\<close>, for a key that is missing.\<close>

definition payload_get :: "payload \<Rightarrow> string \<Rightarrow> json" where
  "payload_get pl key = (case pl key of None \<Rightarrow> JNull | Some v \<Rightarrow> v)"

text \<open>Python's truth value.\<close>

fun truthy :: "json \<Rightarrow> bool" where
  "truthy JNull = False"
| "truthy (JBool b) = b"
| "truthy (JInt n) = (n \<noteq> 0)"
| "truthy (JFloat m x) = (m \<noteq> 0)"
| "truthy (JStr s) = (s \<noteq> [])"
| "truthy (JArray vs) = (vs \<noteq> [])"
| "truthy (JObject kvs) = (kvs \<noteq> [])"

text \<open>
  The token library (\<open>jose.jwt\<close>) is not part of the repository and is a parameter:
  \<open>jwt_encode claims key algorithm\<close> and \<open>jwt_decode token key algorithms now\<close>,
  where \<open>now\<close> is the clock the library reads to check the expiry. \<open>jwt.decode\<close>
  returns the claims, or raises a \<open>JWTError\<close> (a bad signature, a malformed or an
  expired token, a claim it refuses), or raises an exception of another class.
\<close>

datatype decode_error = JWTError string | OtherError string

record 't jose =
  jwt_encode :: "payload \<Rightarrow> string \<Rightarrow> string \<Rightarrow> 't"
  jwt_decode :: "'t \<Rightarrow> string \<Rightarrow> string list \<Rightarrow> int \<Rightarrow> decode_error + payload"

text \<open>
  The claim sets the contract below speaks of: \<open>id\<close> and \<open>sub\<close> strings, \<open>is_admin\<close>
  a boolean or null, \<open>exp\<close> an integer.
\<close>

definition claim_set :: "string \<Rightarrow> string \<Rightarrow> json \<Rightarrow> int \<Rightarrow> payload" where
  "claim_set i s a x = [''id'' \<mapsto> JStr i, ''sub'' \<mapsto> JStr s, ''is_admin'' \<mapsto> a, ''exp'' \<mapsto> JInt x]"

definition is_flag :: "json \<Rightarrow> bool" where
  "is_flag a = (case a of JNull \<Rightarrow> True | JBool b \<Rightarrow> True | _ \<Rightarrow> False)"

definition is_jwt_error :: "decode_error + payload \<Rightarrow> bool" where
  "is_jwt_error r = (case r of Inl (JWTError m) \<Rightarrow> True | _ \<Rightarrow> False)"

text \<open>
  What the handlers rely on from the library: such a claim set, decoded under the key
  and algorithm that encoded it, comes back as it was while its expiry has not passed,
  and raises a \<open>JWTError\<close> once it has.
\<close>

definition jose_contract :: "'t jose \<Rightarrow> bool" where
  "jose_contract J \<longleftrightarrow>
     (\<forall>i s a x key alg now. is_flag a \<longrightarrow>
        (if x < now then
           is_jwt_error (jwt_decode J (jwt_encode J (claim_set i s a x) key alg) key [alg] now)
         else
           jwt_decode J (jwt_encode J (claim_set i s a x) key alg) key [alg] now
             = Inr (claim_set i s a x)))"

definition SECRET_KEY :: "env \<Rightarrow> string" where
  "SECRET_KEY e = (case getenv e ''SECRET_KEY'' of None \<Rightarrow> ''your-secret-key'' | Some v \<Rightarrow> v)"

definition REFRESH_SECRET_KEY :: "env \<Rightarrow> string" where
  "REFRESH_SECRET_KEY e =
     (case getenv e ''REFRESH_SECRET_KEY'' of None \<Rightarrow> ''your-refresh-secret-key'' | Some v \<Rightarrow> v)"

definition ALGORITHM :: string where
  "ALGORITHM = ''HS256''"

definition ACCESS_TOKEN_EXPIRE_MINUTES :: int where
  "ACCESS_TOKEN_EXPIRE_MINUTES = 30"

definition REFRESH_TOKEN_EXPIRE_DAYS :: int where
  "REFRESH_TOKEN_EXPIRE_DAYS = 7"

text \<open>\<open>timedelta(minutes=m)\<close> and \<open>timedelta(days=d)\<close>, in seconds.\<close>

definition minutes :: "int \<Rightarrow> int" where
  "minutes m = 60 * m"

definition days :: "int \<Rightarrow> int" where
  "days d = 86400 * d"

text \<open>
  \<open>verify_password\<close>. The password context's \<open>verify\<close> is a parameter: it returns
  a boolean, or raises (\<open>Inl\<close> of the exception's class) for a password or a hash it
  refuses to process.
\<close>

definition verify_password ::
  "(string \<Rightarrow> string \<Rightarrow> string + bool) \<Rightarrow> string \<Rightarrow> string \<Rightarrow> string + bool" where
  "verify_password pwd_verify plain hashed = pwd_verify plain hashed"

text \<open>
  \<open>create_access_token\<close>; \<open>now\<close> is \<open>datetime.utcnow()\<close>, in seconds. In
  \<open>expires_delta or timedelta(...)\<close> a zero delta is falsy, as \<open>None\<close> is.
\<close>

definition create_access_token :: "'t jose \<Rightarrow> env \<Rightarrow> int \<Rightarrow> payload \<Rightarrow> int option \<Rightarrow> 't" where
  "create_access_token J e now data expires_delta =
     (let expire = now + (case expires_delta of
                            None \<Rightarrow> minutes ACCESS_TOKEN_EXPIRE_MINUTES
                          | Some d \<Rightarrow> if d = 0 then minutes ACCESS_TOKEN_EXPIRE_MINUTES else d)
      in jwt_encode J (data(''exp'' \<mapsto> JInt expire)) (SECRET_KEY e) ALGORITHM)"

definition create_refresh_token :: "'t jose \<Rightarrow> env \<Rightarrow> int \<Rightarrow> payload \<Rightarrow> 't" where
  "create_refresh_token J e now data =
     (let expire = now + days REFRESH_TOKEN_EXPIRE_DAYS
      in jwt_encode J (data(''exp'' \<mapsto> JInt expire)) (REFRESH_SECRET_KEY e) ALGORITHM)"

text \<open>
  \<open>get_user_by_username\<close>. A connection object is truthy, so \<open>if not conn\<close> never
  fires; the \<open>try\<close> has a \<open>finally\<close> and no \<open>except\<close>, so what the query raises
  leaves the function.
\<close>

definition get_user_by_username :: "env \<Rightarrow> string \<Rightarrow> exn + user_row option" where
  "get_user_by_username e name =
     (case connect_to_db e of
        Inl err \<Rightarrow> Inl (HTTP err)
      | Inr conn \<Rightarrow>
          (case select_user conn name of
             Inl c \<Rightarrow> Inl (Unhandled c)
           | Inr row \<Rightarrow> Inr row))"

definition credentials_exception :: http_exception where
  "credentials_exception =
     HTTPException 401 ''Could not validate credentials'' [(''WWW-Authenticate'', ''Bearer'')]"

text \<open>
  \<open>get_current_user\<close>, the spec's \<open>resolve_caller\<close>. Only a \<open>JWTError\<close> is caught.
  \<open>TokenData(id=..., username=..., is_admin=...)\<close> takes two strings and a boolean as
  they are; what the validation library does with a value of another type (a
  conversion, or a \<open>ValidationError\<close>) differs between its releases and is the
  parameter \<open>coerce\<close>.
\<close>

definition get_current_user ::
  "'t jose \<Rightarrow> (json \<Rightarrow> json \<Rightarrow> json \<Rightarrow> string + token_data) \<Rightarrow> env \<Rightarrow> int \<Rightarrow> 't
     \<Rightarrow> exn + token_data" where
  "get_current_user J coerce e now token =
     (case jwt_decode J token (SECRET_KEY e) [ALGORITHM] now of
        Inl (JWTError m) \<Rightarrow> Inl (HTTP credentials_exception)
      | Inl (OtherError c) \<Rightarrow> Inl (Unhandled c)
      | Inr pl \<Rightarrow>
          (let user_id = payload_get pl ''id'';
               username = payload_get pl ''sub'';
               is_admin = payload_get pl ''is_admin''
           in if \<not> (truthy user_id \<and> truthy username \<and> is_admin \<noteq> JNull) then
                Inl (HTTP credentials_exception)
              else
                (case (user_id, username, is_admin) of
                   (JStr i, JStr s, JBool a) \<Rightarrow>
                     Inr \<lparr>td_id = i, td_username = s, td_is_admin = a\<rparr>
                 | _ \<Rightarrow>
                     (case coerce user_id username is_admin of
                        Inl c \<Rightarrow> Inl (Unhandled c)
                      | Inr td \<Rightarrow> Inr td))))"

record user_login =
  l_username :: string
  l_password :: string

text \<open>The response of \<open>/login\<close> and \<open>/refresh\<close> (the model \<open>Token\<close>).\<close>

record 't token =
  access_token :: 't
  refresh_token :: 't
  token_type :: string

text \<open>
  \<open>login\<close>. Nothing is caught: what the query or the password check raises leaves the
  handler. Both tokens are minted at the clock reading \<open>now\<close>.
\<close>

definition login ::
  "'t jose \<Rightarrow> (string \<Rightarrow> string \<Rightarrow> string + bool) \<Rightarrow> env \<Rightarrow> int \<Rightarrow> user_login
     \<Rightarrow> exn + 't token" where
  "login J pwd_verify e now form_data =
     (case get_user_by_username e (l_username form_data) of
        Inl x \<Rightarrow> Inl x
      | Inr None \<Rightarrow> Inl (HTTP (HTTPException 401 ''Invalid username or password'' []))
      | Inr (Some user) \<Rightarrow>
          (case verify_password pwd_verify (l_password form_data) (u_password user) of
             Inl c \<Rightarrow> Inl (Unhandled c)
           | Inr ok \<Rightarrow>
               if \<not> ok then
                 Inl (HTTP (HTTPException 401 ''Invalid username or password'' []))
               else
                 (let pl = [''id'' \<mapsto> JStr (str_uuid (u_id user)),
                            ''sub'' \<mapsto> JStr (u_username user),
                            ''is_admin'' \<mapsto> JBool (u_is_admin user)]
                  in Inr \<lparr>access_token = create_access_token J e now pl None,
                          refresh_token = create_refresh_token J e now pl,
                          token_type = ''bearer''\<rparr>)))"

text \<open>
  The handler \<open>refresh_token\<close> of \<open>/refresh\<close> (the spec's \<open>refresh\<close>), named apart from
  the response field. Only a \<open>JWTError\<close> is caught: the \<open>HTTPException\<close> raised inside
  the \<open>try\<close> and any other exception of \<open>jwt.decode\<close> leave the handler.
\<close>

definition refresh_token_route :: "'t jose \<Rightarrow> env \<Rightarrow> int \<Rightarrow> 't \<Rightarrow> exn + 't token" where
  "refresh_token_route J e now tok =
     (case jwt_decode J tok (REFRESH_SECRET_KEY e) [ALGORITHM] now of
        Inl (JWTError m) \<Rightarrow> Inl (HTTP (HTTPException 401 ''Invalid or expired refresh token'' []))
      | Inl (OtherError c) \<Rightarrow> Inl (Unhandled c)
      | Inr pl \<Rightarrow>
          (let user_id = payload_get pl ''id'';
               username = payload_get pl ''sub'';
               is_admin = payload_get pl ''is_admin''
           in if \<not> truthy username \<or> \<not> truthy user_id then
                Inl (HTTP (HTTPException 401 ''Invalid refresh token'' []))
              else
                (let data = [''id'' \<mapsto> user_id, ''sub'' \<mapsto> username, ''is_admin'' \<mapsto> is_admin]
                 in Inr \<lparr>access_token = create_access_token J e now data None,
                         refresh_token = create_refresh_token J e now data,
                         token_type = ''bearer''\<rparr>)))"

section \<open>Example inputs\<close>

text \<open>
  An idealised token library for the examples: a token is the claim set together with
  the key and the algorithm that signed it, or text that is no token at all. As the
  real library does, it refuses a \<open>sub\<close> that is no string, raises a \<open>TypeError\<close>,
  which is no \<open>JWTError\<close>, for an \<open>exp\<close> that is null, and checks no expiry where
  \<open>exp\<close> is missing.
\<close>

datatype sym_token = Signed payload string string | Malformed string

definition sym_decode ::
  "sym_token \<Rightarrow> string \<Rightarrow> string list \<Rightarrow> int \<Rightarrow> decode_error + payload" where
  "sym_decode tok key algs now =
     (case tok of
        Malformed s \<Rightarrow> Inl (JWTError ''Not enough segments'')
      | Signed pl k a \<Rightarrow>
          if k \<noteq> key \<or> a \<notin> set algs then Inl (JWTError ''Signature verification failed.'')
          else
            (case pl ''sub'' of
               Some (JStr s) \<Rightarrow>
                 (case pl ''exp'' of
                    None \<Rightarrow> Inr pl
                  | Some (JInt x) \<Rightarrow>
                      if x < now then Inl (JWTError ''Signature has expired.'') else Inr pl
                  | Some JNull \<Rightarrow> Inl (OtherError ''TypeError'')
                  | Some v \<Rightarrow> Inl (JWTError ''Expiration Time claim (exp) must be an integer.''))
             | None \<Rightarrow>
                 (case pl ''exp'' of
                    None \<Rightarrow> Inr pl
                  | Some (JInt x) \<Rightarrow>
                      if x < now then Inl (JWTError ''Signature has expired.'') else Inr pl
                  | Some JNull \<Rightarrow> Inl (OtherError ''TypeError'')
                  | Some v \<Rightarrow> Inl (JWTError ''Expiration Time claim (exp) must be an integer.''))
             | Some v \<Rightarrow> Inl (JWTError ''Subject must be a string.'')))"

definition sym_jose :: "sym_token jose" where
  "sym_jose = \<lparr>jwt_encode = Signed, jwt_decode = sym_decode\<rparr>"

text \<open>A validation of \<open>TokenData\<close> that converts nothing: every ill-typed field is a
  \<open>ValidationError\<close>.\<close>

definition strict_token_data :: "json \<Rightarrow> json \<Rightarrow> json \<Rightarrow> string + token_data" where
  "strict_token_data i s a = Inl ''ValidationError''"

text \<open>The text \<open>status: detail\<close>, as recent releases of the web framework print an
  \<open>HTTPException\<close>.\<close>

definition status_detail :: "http_exception \<Rightarrow> string" where
  "status_detail x = str_nat (status_code x) @ '': '' @ detail x"

text \<open>
  A password check for the examples: the stored hash is the password after a tag, and
  a password that holds a NUL byte is refused with an exception, as the real hasher
  refuses it.
\<close>

definition tag_verify :: "string \<Rightarrow> string \<Rightarrow> string + bool" where
  "tag_verify plain hashed =
     (if CHR 0x00 \<in> set plain then Inl ''PasswordValueError'' else Inr (hashed = ''h$'' @ plain))"

definition nul_check :: "string \<Rightarrow> string option" where
  "nul_check s = (if CHR 0x00 \<in> set s then Some ''DataError'' else None)"

definition alice :: user_row where
  "alice = \<lparr>u_id = UUID ''u-alice'', u_username = ''alice'', u_email = ''alice@example.org'',
            u_password = ''h$wonderland'', u_is_admin = False\<rparr>"

text \<open>A user registered with the empty username, which \<open>/register\<close> accepts.\<close>

definition nameless :: user_row where
  "nameless = \<lparr>u_id = UUID ''u-nameless'', u_username = [], u_email = ''n@example.org'',
               u_password = ''h$secret'', u_is_admin = False\<rparr>"

definition fleet_a10 :: fleet_row where
  "fleet_a10 = \<lparr>f_id = UUID ''f-a10'', f_user_id = UUID ''u-alice'', f_ships = [(''x'', 10)]\<rparr>"

definition fleet_a5 :: fleet_row where
  "fleet_a5 = \<lparr>f_id = UUID ''f-a5'', f_user_id = UUID ''u-alice'', f_ships = [(''x'', 5)]\<rparr>"

definition fleet_b5 :: fleet_row where
  "fleet_b5 = \<lparr>f_id = UUID ''f-b5'', f_user_id = UUID ''u-bob'', f_ships = [(''x'', 5)]\<rparr>"

definition fleet_a0 :: fleet_row where
  "fleet_a0 = \<lparr>f_id = UUID ''f-a0'', f_user_id = UUID ''u-alice'', f_ships = []\<rparr>"

definition fleet_b0 :: fleet_row where
  "fleet_b0 = \<lparr>f_id = UUID ''f-b0'', f_user_id = UUID ''u-bob'', f_ships = []\<rparr>"

text \<open>Two fleets of several ship types, of ten and of five ships.\<close>

definition fleet_a_mixed :: fleet_row where
  "fleet_a_mixed = \<lparr>f_id = UUID ''f-a-mixed'', f_user_id = UUID ''u-alice'',
                    f_ships = [(''fighter'', 4), (''cruiser'', 1), (''scout'', 5)]\<rparr>"

definition fleet_b_mixed :: fleet_row where
  "fleet_b_mixed = \<lparr>f_id = UUID ''f-b-mixed'', f_user_id = UUID ''u-bob'',
                    f_ships = [(''fighter'', 2), (''carrier'', 3)]\<rparr>"

definition demo_db :: database where
  "demo_db = \<lparr>users = [alice, nameless],
              user_fleets = [fleet_a10, fleet_a5, fleet_b5, fleet_a0, fleet_b0,
                             fleet_a_mixed, fleet_b_mixed],
              param_error = nul_check\<rparr>"

definition demo_env :: env where
  "demo_env = \<lparr>getenv = [''DATABASE_URL'' \<mapsto> ''postgresql://db/game''],
               psycopg_connect = (\<lambda>url. Inr demo_db)\<rparr>"

definition alice_principal :: token_data where
  "alice_principal = \<lparr>td_id = ''u-alice'', td_username = ''alice'', td_is_admin = False\<rparr>"

text \<open>
  The claim sets of the tokens that \<open>login\<close> mints for the user \<open>nameless\<close> at the
  clock reading 1000, and refresh claim sets without \<open>is_admin\<close>.
\<close>

definition nameless_access_claims :: payload where
  "nameless_access_claims =
     [''id'' \<mapsto> JStr ''u-nameless'', ''sub'' \<mapsto> JStr [], ''is_admin'' \<mapsto> JBool False,
      ''exp'' \<mapsto> JInt 2800]"

definition nameless_refresh_claims :: payload where
  "nameless_refresh_claims =
     [''id'' \<mapsto> JStr ''u-nameless'', ''sub'' \<mapsto> JStr [], ''is_admin'' \<mapsto> JBool False,
      ''exp'' \<mapsto> JInt 605800]"

definition nameless_bare_claims :: payload where
  "nameless_bare_claims =
     [''id'' \<mapsto> JStr ''u-nameless'', ''sub'' \<mapsto> JStr [], ''exp'' \<mapsto> JInt 605800]"

definition alice_bare_claims :: payload where
  "alice_bare_claims =
     [''id'' \<mapsto> JStr ''u-alice'', ''sub'' \<mapsto> JStr ''alice'', ''exp'' \<mapsto> JInt 605800]"


section \<open>Facts about the model and the example inputs\<close>

lemma str_uuid_UUID [simp]: "s \<noteq> [] \<Longrightarrow> str_uuid (UUID s) = s"
  by (simp add: UUID_inverse)

lemma UUID_eq_iff [simp]: "s \<noteq> [] \<Longrightarrow> t \<noteq> [] \<Longrightarrow> (UUID s = UUID t) = (s = t)"
  by (simp add: UUID_inject)

lemma str_uuid_nonempty [simp]: "str_uuid u \<noteq> []"
  using str_uuid [of u] by simp

lemma demo_connect [simp]: "connect_to_db demo_env = Inr demo_db"
  by (simp add: connect_to_db_def demo_env_def)

lemmas demo_fleets = fleet_a10_def fleet_a5_def fleet_b5_def fleet_a0_def fleet_b0_def
  fleet_a_mixed_def fleet_b_mixed_def

lemma demo_select_fleet [simp]:
  "select_fleet demo_db ''f-a10'' = Some fleet_a10"
  "select_fleet demo_db ''f-a5'' = Some fleet_a5"
  "select_fleet demo_db ''f-b5'' = Some fleet_b5"
  "select_fleet demo_db ''f-a0'' = Some fleet_a0"
  "select_fleet demo_db ''f-b0'' = Some fleet_b0"
  "select_fleet demo_db ''f-a-mixed'' = Some fleet_a_mixed"
  "select_fleet demo_db ''f-b-mixed'' = Some fleet_b_mixed"
  "select_fleet demo_db ''f-none'' = None"
  by (simp_all add: select_fleet_def demo_db_def demo_fleets)

lemma demo_keys [simp]:
  "SECRET_KEY demo_env = ''your-secret-key''"
  "REFRESH_SECRET_KEY demo_env = ''your-refresh-secret-key''"
  by (simp_all add: SECRET_KEY_def REFRESH_SECRET_KEY_def demo_env_def)

lemma demo_select_user [simp]:
  "select_user demo_db ''alice'' = Inr (Some alice)"
  "select_user demo_db [] = Inr (Some nameless)"
  "select_user demo_db ''mallory'' = Inr None"
  "select_user demo_db [CHR 0x00] = Inl ''DataError''"
  by (simp_all add: select_user_def demo_db_def alice_def nameless_def nul_check_def)

lemma sym_jose_sel [simp]:
  "jwt_encode sym_jose = Signed" "jwt_decode sym_jose = sym_decode"
  by (simp_all add: sym_jose_def)

lemma sym_jose_contract: "jose_contract sym_jose"
  by (simp add: jose_contract_def sym_decode_def claim_set_def is_jwt_error_def)

lemma access_lifetime [simp]: "minutes ACCESS_TOKEN_EXPIRE_MINUTES = 1800"
  by (simp add: minutes_def ACCESS_TOKEN_EXPIRE_MINUTES_def)

lemma refresh_lifetime [simp]: "days REFRESH_TOKEN_EXPIRE_DAYS = 604800"
  by (simp add: days_def REFRESH_TOKEN_EXPIRE_DAYS_def)

lemma jose_contract_fresh:
  assumes "jose_contract J" and "is_flag a" and "t \<le> x"
  shows "jwt_decode J (jwt_encode J (claim_set i s a x) key alg) key [alg] t
     = Inr (claim_set i s a x)"
proof -
  have "\<not> x < t" using assms(3) by simp
  with assms(1,2) show ?thesis unfolding jose_contract_def by metis
qed

lemma jose_contract_own:
  assumes "jose_contract J" and "is_flag a"
  shows "is_jwt_error (jwt_decode J (jwt_encode J (claim_set i s a x) key alg) key [alg] t)
     \<or> jwt_decode J (jwt_encode J (claim_set i s a x) key alg) key [alg] t
         = Inr (claim_set i s a x)"
  using assms unfolding jose_contract_def by metis

lemma is_jwt_errorD: "is_jwt_error r \<Longrightarrow> \<exists>m. r = Inl (JWTError m)"
  by (auto simp: is_jwt_error_def split: sum.splits decode_error.splits)

lemma demo_decodes [simp]:
  "sym_decode (Signed nameless_access_claims ''your-secret-key'' ''HS256'')
     ''your-secret-key'' [''HS256''] 1000 = Inr nameless_access_claims"
  "sym_decode (Signed nameless_refresh_claims ''your-refresh-secret-key'' ''HS256'')
     ''your-refresh-secret-key'' [''HS256''] 1000 = Inr nameless_refresh_claims"
  "sym_decode (Signed nameless_bare_claims ''your-refresh-secret-key'' ''HS256'')
     ''your-refresh-secret-key'' [''HS256''] 1000 = Inr nameless_bare_claims"
  "sym_decode (Signed alice_bare_claims k ''HS256'') k [''HS256''] 1000 = Inr alice_bare_claims"
  "sym_decode (Signed (alice_bare_claims(''is_admin'' \<mapsto> a)) k ''HS256'') k [''HS256''] 1000
     = Inr (alice_bare_claims(''is_admin'' \<mapsto> a))"
  "sym_decode (Signed (alice_bare_claims(''id'' \<mapsto> i, ''is_admin'' \<mapsto> a)) k ''HS256'') k
     [''HS256''] 1000 = Inr (alice_bare_claims(''id'' \<mapsto> i, ''is_admin'' \<mapsto> a))"
  "sym_decode (Signed (alice_bare_claims |` (- {''sub''})) k ''HS256'') k [''HS256''] 1000
     = Inr (alice_bare_claims |` (- {''sub''}))"
  "sym_decode (Signed (alice_bare_claims(''exp'' \<mapsto> JNull)) k ''HS256'') k [''HS256''] 1000
     = Inl (OtherError ''TypeError'')"
  by (simp_all add: sym_decode_def nameless_access_claims_def nameless_refresh_claims_def
      nameless_bare_claims_def alice_bare_claims_def restrict_map_def)

lemma start_battle_InrD:
  assumes "start_battle str_exc e nid a d cu = Inr r"
  shows "\<exists>conn af df. connect_to_db e = Inr conn
      \<and> select_fleet conn (str_uuid a) = Some af
      \<and> select_fleet conn (str_uuid d) = Some df
      \<and> str_uuid (f_user_id af) = td_id cu
      \<and> str_uuid (f_user_id df) \<noteq> td_id cu
      \<and> start_battle_try conn nid a d cu = Inr r"
  using assms
  by (auto simp: start_battle_def start_battle_try_def split: sum.splits option.splits if_splits)



section \<open>Battle resolution\<close>







text \<open>
  Claim C10. Every outcome that \<open>start_battle\<close> returns names the owners of the two
  fleets: the pair of winner and loser is the pair of the attacker fleet's owner and the
  defender fleet's owner, and winner and loser differ.
\<close>

theorem outcome_names_both_owners:
  assumes "start_battle str_exc e nid a d cu = Inr r"
  shows "\<exists>conn af df. connect_to_db e = Inr conn
      \<and> select_fleet conn (str_uuid a) = Some af
      \<and> select_fleet conn (str_uuid d) = Some df
      \<and> attacker_id r = f_user_id af \<and> defender_id r = f_user_id df
      \<and> {winner_id r, loser_id r} = {f_user_id af, f_user_id df}
      \<and> winner_id r \<noteq> loser_id r"
proof -
  from start_battle_InrD [OF assms] obtain conn af df where
    c: "connect_to_db e = Inr conn"
    and sa: "select_fleet conn (str_uuid a) = Some af"
    and sd: "select_fleet conn (str_uuid d) = Some df"
    and oa: "str_uuid (f_user_id af) = td_id cu"
    and od: "str_uuid (f_user_id df) \<noteq> td_id cu"
    and r: "start_battle_try conn nid a d cu = Inr r"
    by blast
  have ne: "f_user_id af \<noteq> f_user_id df"
    using oa od by auto
  have "attacker_id r = f_user_id af \<and> defender_id r = f_user_id df
      \<and> {winner_id r, loser_id r} = {f_user_id af, f_user_id df}
      \<and> winner_id r \<noteq> loser_id r"
    using r sa sd oa od ne
    by (auto simp: start_battle_try_def Let_def split: if_splits)
  with c sa sd show ?thesis by blast
qed


text \<open>C10 at a tie between two fleets of five ships.\<close>

theorem outcome_names_both_owners_witness:
  "\<exists>conn af df. connect_to_db demo_env = Inr conn
      \<and> select_fleet conn (str_uuid (UUID ''f-a5'')) = Some af
      \<and> select_fleet conn (str_uuid (UUID ''f-b5'')) = Some df
      \<and> UUID ''u-alice'' = f_user_id af \<and> UUID ''u-bob'' = f_user_id df
      \<and> {UUID ''u-bob'', UUID ''u-alice''} = {f_user_id af, f_user_id df}
      \<and> UUID ''u-bob'' \<noteq> UUID ''u-alice''"
proof -
  have "start_battle status_detail demo_env (UUID ''b-3'') (UUID ''f-a5'') (UUID ''f-b5'')
      alice_principal =
      Inr \<lparr>battle_id = UUID ''b-3'', attacker_id = UUID ''u-alice'', defender_id = UUID ''u-bob'',
           attacker_fleet_id = UUID ''f-a5'', defender_fleet_id = UUID ''f-b5'',
           winner_id = UUID ''u-bob'', loser_id = UUID ''u-alice'',
           attacker_total_ships = 5, defender_total_ships = 5,
           report = ''Battle ID: b-3'' @ newline @ ''Tie - Defender wins by default!'' @ newline
             @ ''Attacker ships: 5'' @ newline @ ''Defender ships: 5''\<rparr>"
    by (simp add: start_battle_def start_battle_try_def Let_def fleet_a5_def fleet_b5_def
        alice_principal_def sum_values_def str_int_def str_nat.simps digit_char_def)
  from outcome_names_both_owners [OF this] show ?thesis
    by (simp add: fleet_a5_def fleet_b5_def insert_commute)
qed


text \<open>
  Every error that leaves \<open>start_battle\<close> carries the status 500: the handler that
  catches \<open>Exception\<close> also catches the \<open>HTTPException\<close>s of the precondition checks.
\<close>

theorem start_battle_errors_are_500:
  assumes "start_battle str_exc e nid a d cu = Inl err"
  shows "status_code err = 500"
  using assms
  by (auto simp: start_battle_def connect_to_db_def split: sum.splits option.splits if_splits)


text \<open>
  Claim C2, at a failing input. The defender fleet does not exist: the check raises the
  404 "Defender fleet not found", and the caller receives a 500 that quotes it.
\<close>

theorem missing_defender_gives_500:
  "start_battle str_exc demo_env nid (UUID ''f-a5'') (UUID ''f-none'') alice_principal =
     Inl (HTTPException 500
       (''Error during battle: '' @ str_exc (HTTPException 404 ''Defender fleet not found'' []))
       [])"
  by (simp add: start_battle_def start_battle_try_def fleet_a5_def alice_principal_def)


text \<open>The same for an attacker fleet that the caller does not own: the 403 arrives as a 500.\<close>

theorem foreign_attacker_gives_500:
  "start_battle str_exc demo_env nid (UUID ''f-b5'') (UUID ''f-a5'') alice_principal =
     Inl (HTTPException 500
       (''Error during battle: ''
          @ str_exc (HTTPException 403 ''You do not own the attacker fleet'' []))
       [])"
  by (simp add: start_battle_def start_battle_try_def fleet_b5_def alice_principal_def)


text \<open>
  Claim C3, at a failing input. Both fleets belong to the caller: the check raises the
  400 "Cannot attack your own fleet", and the caller receives a 500 that quotes it.
\<close>

theorem self_battle_gives_500:
  "start_battle str_exc demo_env nid (UUID ''f-a10'') (UUID ''f-a5'') alice_principal =
     Inl (HTTPException 500
       (''Error during battle: '' @ str_exc (HTTPException 400 ''Cannot attack your own fleet'' []))
       [])"
  by (simp add: start_battle_def start_battle_try_def fleet_a10_def fleet_a5_def
      alice_principal_def)



section \<open>Sessions\<close>







text \<open>What the query or the password check raises leaves \<open>login\<close> as it is.\<close>

lemma login_exceptions_escape:
  assumes "connect_to_db e = Inr conn"
  shows "select_user conn name = Inl c \<Longrightarrow>
           login J pwd_verify e now \<lparr>l_username = name, l_password = pw\<rparr> = Inl (Unhandled c)"
    and "select_user conn name = Inr (Some u) \<Longrightarrow> pwd_verify pw (u_password u) = Inl c \<Longrightarrow>
           login J pwd_verify e now \<lparr>l_username = name, l_password = pw\<rparr> = Inl (Unhandled c)"
  using assms
  by (simp_all add: login_def get_user_by_username_def verify_password_def)


text \<open>
  Claim C5 as stated fails for a stored user whose username is empty: \<open>login\<close> succeeds,
  and \<open>get_current_user\<close> rejects the access token it has just returned, because the
  empty \<open>sub\<close> claim is falsy.
\<close>

theorem login_then_resolve_empty_username:
  "jose_contract sym_jose
   \<and> select_user demo_db [] = Inr (Some nameless)
   \<and> tag_verify ''secret'' (u_password nameless) = Inr True
   \<and> login sym_jose tag_verify demo_env 1000 \<lparr>l_username = [], l_password = ''secret''\<rparr> =
       Inr \<lparr>access_token = Signed nameless_access_claims ''your-secret-key'' ''HS256'',
            refresh_token = Signed nameless_refresh_claims ''your-refresh-secret-key'' ''HS256'',
            token_type = ''bearer''\<rparr>
   \<and> get_current_user sym_jose strict_token_data demo_env 1000
         (Signed nameless_access_claims ''your-secret-key'' ''HS256'') =
       Inl (HTTP credentials_exception)"
  by (simp add: sym_jose_contract login_def get_user_by_username_def verify_password_def
      tag_verify_def nameless_def create_access_token_def create_refresh_token_def
      ALGORITHM_def nameless_access_claims_def nameless_refresh_claims_def
      get_current_user_def sym_decode_def payload_get_def Let_def)


text \<open>
  Claim C5, amended. For a token library that keeps its contract, every stored user with
  a non-empty username and every password that verifies: \<open>login\<close> succeeds, and
  \<open>get_current_user\<close> on the returned access token, at any clock reading up to the
  token's expiry, yields the principal with the row's id, username and admin flag.
\<close>

theorem login_then_resolve:
  assumes "jose_contract J"
    and "connect_to_db e = Inr conn"
    and "select_user conn name = Inr (Some u)"
    and "pwd_verify pw (u_password u) = Inr True"
    and "u_username u \<noteq> []"
    and "t \<le> now + minutes ACCESS_TOKEN_EXPIRE_MINUTES"
  shows "\<exists>tk. login J pwd_verify e now \<lparr>l_username = name, l_password = pw\<rparr> = Inr tk
      \<and> token_type tk = ''bearer''
      \<and> get_current_user J coerce e t (access_token tk) =
          Inr \<lparr>td_id = str_uuid (u_id u), td_username = u_username u,
               td_is_admin = u_is_admin u\<rparr>"
proof -
  let ?pl = "claim_set (str_uuid (u_id u)) (u_username u) (JBool (u_is_admin u)) (now + 1800)"
  have dec: "jwt_decode J (jwt_encode J ?pl (SECRET_KEY e) ALGORITHM) (SECRET_KEY e)
      [ALGORITHM] t = Inr ?pl"
    using assms(6) by (intro jose_contract_fresh [OF assms(1)]) (simp_all add: is_flag_def)
  have lg: "login J pwd_verify e now \<lparr>l_username = name, l_password = pw\<rparr> =
      Inr \<lparr>access_token = jwt_encode J ?pl (SECRET_KEY e) ALGORITHM,
           refresh_token = create_refresh_token J e now
             [''id'' \<mapsto> JStr (str_uuid (u_id u)), ''sub'' \<mapsto> JStr (u_username u),
              ''is_admin'' \<mapsto> JBool (u_is_admin u)],
           token_type = ''bearer''\<rparr>"
    using assms(2,3,4)
    by (simp add: login_def get_user_by_username_def verify_password_def
        create_access_token_def Let_def claim_set_def)
  have gc: "get_current_user J coerce e t (jwt_encode J ?pl (SECRET_KEY e) ALGORITHM) =
      Inr \<lparr>td_id = str_uuid (u_id u), td_username = u_username u,
           td_is_admin = u_is_admin u\<rparr>"
    using assms(5) by (simp add: get_current_user_def dec) (simp add: claim_set_def payload_get_def)
  show ?thesis using lg gc by simp
qed


text \<open>C5 for the user \<open>alice\<close>, resolved at the last second of the token's life.\<close>

theorem login_then_resolve_witness:
  "\<exists>tk. login sym_jose tag_verify demo_env 1000
          \<lparr>l_username = ''alice'', l_password = ''wonderland''\<rparr> = Inr tk
      \<and> token_type tk = ''bearer''
      \<and> get_current_user sym_jose strict_token_data demo_env 2800 (access_token tk) =
          Inr \<lparr>td_id = ''u-alice'', td_username = ''alice'', td_is_admin = False\<rparr>"
  using login_then_resolve [of sym_jose demo_env demo_db "''alice''" alice tag_verify
      "''wonderland''" 2800 1000 strict_token_data]
  by (simp add: sym_jose_contract alice_def tag_verify_def)


text \<open>
  Claim C6 as stated fails for an access token whose \<open>sub\<close> claim is the empty string:
  the token decodes under the access secret, all three claims are present, and
  \<open>get_current_user\<close> rejects it.
\<close>

theorem resolve_caller_empty_username:
  "jwt_decode sym_jose (Signed nameless_access_claims ''your-secret-key'' ''HS256'')
       (SECRET_KEY demo_env) [ALGORITHM] 1000 = Inr nameless_access_claims
   \<and> nameless_access_claims ''id'' = Some (JStr ''u-nameless'')
   \<and> nameless_access_claims ''sub'' = Some (JStr [])
   \<and> nameless_access_claims ''is_admin'' = Some (JBool False)
   \<and> get_current_user sym_jose strict_token_data demo_env 1000
         (Signed nameless_access_claims ''your-secret-key'' ''HS256'') =
       Inl (HTTP credentials_exception)"
  by (simp add: get_current_user_def ALGORITHM_def payload_get_def)
     (simp add: nameless_access_claims_def)


text \<open>
  Claim C6, amended. For an access token that decodes under the access secret,
  \<open>get_current_user\<close> fails with the credentials error whenever \<open>id\<close>, \<open>sub\<close> or
  \<open>is_admin\<close> is missing or null, or \<open>id\<close> or \<open>sub\<close> is the empty string; and it
  returns the principal built from the three claims whenever \<open>id\<close> and \<open>sub\<close> are
  non-empty strings and \<open>is_admin\<close> is a boolean, false included.
\<close>

theorem resolve_caller_requires_claims:
  assumes "jwt_decode J tok (SECRET_KEY e) [ALGORITHM] now = Inr pl"
  shows "(pl ''id'' = None \<or> pl ''id'' = Some JNull \<or> pl ''id'' = Some (JStr [])
            \<or> pl ''sub'' = None \<or> pl ''sub'' = Some JNull \<or> pl ''sub'' = Some (JStr [])
            \<or> pl ''is_admin'' = None \<or> pl ''is_admin'' = Some JNull
          \<longrightarrow> get_current_user J coerce e now tok = Inl (HTTP credentials_exception))
     \<and> (\<forall>i s a. pl ''id'' = Some (JStr i) \<and> i \<noteq> [] \<and> pl ''sub'' = Some (JStr s) \<and> s \<noteq> []
            \<and> pl ''is_admin'' = Some (JBool a)
          \<longrightarrow> get_current_user J coerce e now tok =
                Inr \<lparr>td_id = i, td_username = s, td_is_admin = a\<rparr>)"
  using assms
  by (auto simp: get_current_user_def payload_get_def Let_def)


text \<open>C6 at a token without \<open>is_admin\<close> and at the same token with \<open>is_admin\<close> false.\<close>

theorem resolve_caller_requires_claims_witness:
  "get_current_user sym_jose strict_token_data demo_env 1000
      (Signed alice_bare_claims ''your-secret-key'' ''HS256'') = Inl (HTTP credentials_exception)
   \<and> get_current_user sym_jose strict_token_data demo_env 1000
      (Signed (alice_bare_claims(''is_admin'' \<mapsto> JBool False)) ''your-secret-key'' ''HS256'') =
        Inr \<lparr>td_id = ''u-alice'', td_username = ''alice'', td_is_admin = False\<rparr>"
proof -
  have d1: "jwt_decode sym_jose (Signed alice_bare_claims ''your-secret-key'' ''HS256'')
      (SECRET_KEY demo_env) [ALGORITHM] 1000 = Inr alice_bare_claims"
    by (simp add: ALGORITHM_def)
  have d2: "jwt_decode sym_jose
      (Signed (alice_bare_claims(''is_admin'' \<mapsto> JBool False)) ''your-secret-key'' ''HS256'')
      (SECRET_KEY demo_env) [ALGORITHM] 1000
        = Inr (alice_bare_claims(''is_admin'' \<mapsto> JBool False))"
    by (simp add: ALGORITHM_def)
  have a: "get_current_user sym_jose strict_token_data demo_env 1000
      (Signed alice_bare_claims ''your-secret-key'' ''HS256'') = Inl (HTTP credentials_exception)"
    using resolve_caller_requires_claims [OF d1, THEN conjunct1, of strict_token_data]
    by (simp add: alice_bare_claims_def)
  have b: "get_current_user sym_jose strict_token_data demo_env 1000
      (Signed (alice_bare_claims(''is_admin'' \<mapsto> JBool False)) ''your-secret-key'' ''HS256'') =
        Inr \<lparr>td_id = ''u-alice'', td_username = ''alice'', td_is_admin = False\<rparr>"
    using resolve_caller_requires_claims [OF d2, THEN conjunct2, rule_format,
        of "''u-alice''" "''alice''" False strict_token_data]
    by (simp add: alice_bare_claims_def)
  from a b show ?thesis by (intro conjI)
qed


text \<open>
  Outside the amended claim: an exception of the decoding that is no \<open>JWTError\<close> leaves
  \<open>get_current_user\<close>, and so does the \<open>ValidationError\<close> of a validation that converts
  nothing, here for a token whose \<open>id\<close> is the number 5.
\<close>

lemma resolve_caller_exceptions_escape:
  shows "jwt_decode J tok (SECRET_KEY e) [ALGORITHM] now = Inl (OtherError c) \<Longrightarrow>
           get_current_user J coerce e now tok = Inl (Unhandled c)"
    and "get_current_user sym_jose strict_token_data demo_env 1000
           (Signed (alice_bare_claims(''id'' \<mapsto> JInt 5, ''is_admin'' \<mapsto> JBool False))
              ''your-secret-key'' ''HS256'') = Inl (Unhandled ''ValidationError'')"
  by (simp_all add: get_current_user_def ALGORITHM_def payload_get_def)
     (simp add: alice_bare_claims_def strict_token_data_def)








text \<open>
  Outside the amended claim: an exception of the decoding that is no \<open>JWTError\<close> leaves
  the handler, here the \<open>TypeError\<close> for a signed token whose \<open>exp\<close> is null.
\<close>

lemma refresh_exceptions_escape:
  shows "jwt_decode J tok (REFRESH_SECRET_KEY e) [ALGORITHM] now = Inl (OtherError c) \<Longrightarrow>
           refresh_token_route J e now tok = Inl (Unhandled c)"
    and "refresh_token_route sym_jose demo_env 1000
           (Signed (alice_bare_claims(''exp'' \<mapsto> JNull)) ''your-refresh-secret-key'' ''HS256'')
         = Inl (Unhandled ''TypeError'')"
  by (simp_all add: refresh_token_route_def ALGORITHM_def)


text \<open>
  Claim C9 as stated fails for a refresh token that carries \<open>id\<close>, an empty \<open>sub\<close> and no
  \<open>is_admin\<close>: the handler does not mint a pair, it answers "Invalid refresh token".
\<close>

theorem refresh_bare_empty_username:
  "jwt_decode sym_jose (Signed nameless_bare_claims ''your-refresh-secret-key'' ''HS256'')
       (REFRESH_SECRET_KEY demo_env) [ALGORITHM] 1000 = Inr nameless_bare_claims
   \<and> nameless_bare_claims ''id'' = Some (JStr ''u-nameless'')
   \<and> nameless_bare_claims ''sub'' = Some (JStr [])
   \<and> nameless_bare_claims ''is_admin'' = None
   \<and> refresh_token_route sym_jose demo_env 1000
         (Signed nameless_bare_claims ''your-refresh-secret-key'' ''HS256'') =
       Inl (HTTP (HTTPException 401 ''Invalid refresh token'' []))"
  by (simp add: refresh_token_route_def ALGORITHM_def payload_get_def)
     (simp add: nameless_bare_claims_def)


text \<open>
  Claim C9, amended. For a token library that keeps its contract and a refresh token that
  decodes under the refresh secret with \<open>id\<close> and \<open>sub\<close> non-empty strings and
  \<open>is_admin\<close> missing or null: the handler succeeds, both new tokens carry a null
  \<open>is_admin\<close>, and \<open>get_current_user\<close> rejects the new access token at every clock
  reading.
\<close>

theorem refresh_without_is_admin:
  assumes "jose_contract J"
    and "jwt_decode J tok (REFRESH_SECRET_KEY e) [ALGORITHM] now = Inr pl"
    and "pl ''id'' = Some (JStr i)" and "i \<noteq> []"
    and "pl ''sub'' = Some (JStr s)" and "s \<noteq> []"
    and "pl ''is_admin'' = None \<or> pl ''is_admin'' = Some JNull"
  shows "refresh_token_route J e now tok =
       Inr \<lparr>access_token =
              jwt_encode J [''id'' \<mapsto> JStr i, ''sub'' \<mapsto> JStr s, ''is_admin'' \<mapsto> JNull,
                            ''exp'' \<mapsto> JInt (now + 1800)] (SECRET_KEY e) ALGORITHM,
            refresh_token =
              jwt_encode J [''id'' \<mapsto> JStr i, ''sub'' \<mapsto> JStr s, ''is_admin'' \<mapsto> JNull,
                            ''exp'' \<mapsto> JInt (now + 604800)] (REFRESH_SECRET_KEY e) ALGORITHM,
            token_type = ''bearer''\<rparr>
     \<and> get_current_user J coerce e t
          (jwt_encode J [''id'' \<mapsto> JStr i, ''sub'' \<mapsto> JStr s, ''is_admin'' \<mapsto> JNull,
                        ''exp'' \<mapsto> JInt (now + 1800)] (SECRET_KEY e) ALGORITHM) =
        Inl (HTTP credentials_exception)"
proof -
  let ?pl = "[''id'' \<mapsto> JStr i, ''sub'' \<mapsto> JStr s, ''is_admin'' \<mapsto> JNull,
              ''exp'' \<mapsto> JInt (now + 1800)]"
  have r: "refresh_token_route J e now tok =
       Inr \<lparr>access_token = jwt_encode J ?pl (SECRET_KEY e) ALGORITHM,
            refresh_token =
              jwt_encode J [''id'' \<mapsto> JStr i, ''sub'' \<mapsto> JStr s, ''is_admin'' \<mapsto> JNull,
                            ''exp'' \<mapsto> JInt (now + 604800)] (REFRESH_SECRET_KEY e) ALGORITHM,
            token_type = ''bearer''\<rparr>"
    using assms(2-7)
    by (auto simp: refresh_token_route_def payload_get_def Let_def create_access_token_def
        create_refresh_token_def)
  have pl: "?pl = claim_set i s JNull (now + 1800)"
    by (simp add: claim_set_def)
  from jose_contract_own [OF assms(1), of JNull i s "now + 1800" "SECRET_KEY e" ALGORITHM t]
  have "is_jwt_error (jwt_decode J (jwt_encode J ?pl (SECRET_KEY e) ALGORITHM) (SECRET_KEY e)
          [ALGORITHM] t)
     \<or> jwt_decode J (jwt_encode J ?pl (SECRET_KEY e) ALGORITHM) (SECRET_KEY e) [ALGORITHM] t
         = Inr ?pl"
    unfolding pl by (simp add: is_flag_def)
  then have g: "get_current_user J coerce e t (jwt_encode J ?pl (SECRET_KEY e) ALGORITHM) =
      Inl (HTTP credentials_exception)"
  proof
    assume "is_jwt_error (jwt_decode J (jwt_encode J ?pl (SECRET_KEY e) ALGORITHM)
        (SECRET_KEY e) [ALGORITHM] t)"
    then obtain m where "jwt_decode J (jwt_encode J ?pl (SECRET_KEY e) ALGORITHM)
        (SECRET_KEY e) [ALGORITHM] t = Inl (JWTError m)"
      using is_jwt_errorD by blast
    then show ?thesis by (simp add: get_current_user_def)
  next
    assume "jwt_decode J (jwt_encode J ?pl (SECRET_KEY e) ALGORITHM) (SECRET_KEY e)
        [ALGORITHM] t = Inr ?pl"
    then show ?thesis by (simp add: get_current_user_def payload_get_def)
  qed
  from r g show ?thesis by (intro conjI)
qed


text \<open>C9 at a refresh token for \<open>alice\<close> without \<open>is_admin\<close>.\<close>

theorem refresh_without_is_admin_witness:
  "refresh_token_route sym_jose demo_env 1000
      (Signed alice_bare_claims ''your-refresh-secret-key'' ''HS256'') =
       Inr \<lparr>access_token =
              Signed [''id'' \<mapsto> JStr ''u-alice'', ''sub'' \<mapsto> JStr ''alice'',
                      ''is_admin'' \<mapsto> JNull, ''exp'' \<mapsto> JInt 2800]
                ''your-secret-key'' ''HS256'',
            refresh_token =
              Signed [''id'' \<mapsto> JStr ''u-alice'', ''sub'' \<mapsto> JStr ''alice'',
                      ''is_admin'' \<mapsto> JNull, ''exp'' \<mapsto> JInt 605800]
                ''your-refresh-secret-key'' ''HS256'',
            token_type = ''bearer''\<rparr>
     \<and> get_current_user sym_jose strict_token_data demo_env 1001
          (Signed [''id'' \<mapsto> JStr ''u-alice'', ''sub'' \<mapsto> JStr ''alice'',
                   ''is_admin'' \<mapsto> JNull, ''exp'' \<mapsto> JInt 2800]
             ''your-secret-key'' ''HS256'') =
        Inl (HTTP credentials_exception)"
proof -
  have d: "jwt_decode sym_jose (Signed alice_bare_claims ''your-refresh-secret-key'' ''HS256'')
      (REFRESH_SECRET_KEY demo_env) [ALGORITHM] 1000 = Inr alice_bare_claims"
    by (simp add: ALGORITHM_def)
  show ?thesis
    using refresh_without_is_admin [OF sym_jose_contract d, of "''u-alice''" "''alice''"
        strict_token_data 1001]
    by (simp add: alice_bare_claims_def ALGORITHM_def)
qed

end
